theory Spec2Isabelle
  imports Complex_Main "HOL-Library.Sublist"
begin

chapter \<open>The chat backend of AI4Chat-ai-assistant (src/backend/server.js)\<close>

text \<open>
  The development embeds the request handlers of \<^verbatim>\<open>server.js\<close> and the pure functions
  they call: the keyword classifiers, the personalised-query templates, the product answer
  formatter and the session store.

  Conventions of the embedding.
  \<^item> A JavaScript string is a \<open>string\<close>. Messages and document fields are taken to be
    ASCII; the two non-ASCII literals of the source (the rupee sign of the price pattern
    and the ellipsis appended to snippets) are written as their UTF-8 bytes.
  \<^item> A field that may be absent (\<^verbatim>\<open>undefined\<close> or \<^verbatim>\<open>null\<close>) is an \<open>option\<close>; \<open>truthy\<close> is
    JavaScript's truthiness of such a string field and \<open>or_empty\<close> is \<^verbatim>\<open>x || ''\<close>.
  \<^item> The elements of a retrieved array are JSON objects with string fields (what the
    formatter's \<^verbatim>\<open>.trim()\<close> and \<^verbatim>\<open>.toLowerCase()\<close> calls expect).
  \<^item> What a handler reads from outside (the clock, the random number, the exit code and
    output of each search subprocess) is an explicit argument, one field per read.
  \<^item> A turn is run to its end before the next one starts: interleavings of concurrent
    requests at the \<^verbatim>\<open>await\<close> points are not modelled.
\<close>

section \<open>String and array primitives of JavaScript\<close>

definition truthy :: "string option \<Rightarrow> bool" where
  "truthy x = (case x of None \<Rightarrow> False | Some s \<Rightarrow> s \<noteq> [])"

definition or_empty :: "string option \<Rightarrow> string" where
  "or_empty x = (case x of None \<Rightarrow> [] | Some s \<Rightarrow> s)"

definition toLowerCase_char :: "char \<Rightarrow> char" where
  "toLowerCase_char c =
     (case map_of (zip ''ABCDEFGHIJKLMNOPQRSTUVWXYZ'' ''abcdefghijklmnopqrstuvwxyz'') c of
        None \<Rightarrow> c
      | Some d \<Rightarrow> d)"

definition toLowerCase :: "string \<Rightarrow> string" where
  "toLowerCase s = map toLowerCase_char s"

text \<open>\<^verbatim>\<open>s.includes(sub)\<close>: \<open>sub\<close> occurs in \<open>s\<close> as a contiguous block.\<close>

fun str_includes :: "string \<Rightarrow> string \<Rightarrow> bool" where
  "str_includes [] sub = (sub = [])"
| "str_includes (c # cs) sub = (prefix sub (c # cs) \<or> str_includes cs sub)"

text \<open>
  \<^verbatim>\<open>keywords.some(k => s.includes(k))\<close>, and also \<^verbatim>\<open>/(a|b|c)/i.test(s)\<close> for a lower-cased
  \<open>s\<close> and an alternation of lower-case literals.
\<close>

definition includes_any :: "string list \<Rightarrow> string \<Rightarrow> bool" where
  "includes_any keywords s = list_ex (str_includes s) keywords"

definition is_space :: "char \<Rightarrow> bool" where
  "is_space c = (c \<in> set [CHR '' '', CHR 0x09, CHR 0x0A, CHR 0x0B, CHR 0x0C, CHR 0x0D])"

definition trim :: "string \<Rightarrow> string" where
  "trim s = rev (dropWhile is_space (rev (dropWhile is_space s)))"

text \<open>\<^verbatim>\<open>xs.join(sep)\<close>.\<close>

fun join :: "string \<Rightarrow> string list \<Rightarrow> string" where
  "join sep [] = []"
| "join sep [x] = x"
| "join sep (x # y # ys) = x @ sep @ join sep (y # ys)"

text \<open>\<^verbatim>\<open>s.replace(pat, rep)\<close> with a string pattern: the first occurrence only.\<close>

fun replace_first :: "string \<Rightarrow> string \<Rightarrow> string \<Rightarrow> string" where
  "replace_first [] pat rep = (if pat = [] then rep else [])"
| "replace_first (c # cs) pat rep =
     (if prefix pat (c # cs) then rep @ drop (length pat) (c # cs)
      else c # replace_first cs pat rep)"

text \<open>\<^verbatim>\<open>[...new Set(xs)]\<close>: the distinct elements in the order of their first occurrence.\<close>

fun set_spread :: "string list \<Rightarrow> string list \<Rightarrow> string list" where
  "set_spread seen [] = []"
| "set_spread seen (x # xs) =
     (if x \<in> set seen then set_spread seen xs else x # set_spread (x # seen) xs)"

text \<open>
  \<^verbatim>\<open>s.match(/\b(w1|w2|...)\b/)\<close>, group 1: the leftmost position where an alternative
  stands between two word boundaries, alternatives tried in the order written. A word
  character is \<^verbatim>\<open>[A-Za-z0-9_]\<close>; \<^verbatim>\<open>\b\<close> holds where exactly one of the neighbours is one.
\<close>

definition is_word_char :: "char \<Rightarrow> bool" where
  "is_word_char c =
     (c \<in> set ''abcdefghijklmnopqrstuvwxyzABCDEFGHIJKLMNOPQRSTUVWXYZ0123456789_'')"

definition word_boundary :: "char option \<Rightarrow> char option \<Rightarrow> bool" where
  "word_boundary prev next_c =
     ((case prev of None \<Rightarrow> False | Some c \<Rightarrow> is_word_char c) \<noteq>
      (case next_c of None \<Rightarrow> False | Some c \<Rightarrow> is_word_char c))"

definition first_char :: "string \<Rightarrow> char option" where
  "first_char s = (case s of [] \<Rightarrow> None | c # _ \<Rightarrow> Some c)"

definition last_char :: "char option \<Rightarrow> string \<Rightarrow> char option" where
  "last_char prev w = (case rev w of [] \<Rightarrow> prev | c # _ \<Rightarrow> Some c)"

fun match_here :: "char option \<Rightarrow> string \<Rightarrow> string list \<Rightarrow> string option" where
  "match_here prev s [] = None"
| "match_here prev s (w # ws) =
     (if word_boundary prev (first_char s) \<and> prefix w s \<and>
         word_boundary (last_char prev w) (first_char (drop (length w) s))
      then Some w
      else match_here prev s ws)"

fun match_word :: "char option \<Rightarrow> string \<Rightarrow> string list \<Rightarrow> string option" where
  "match_word prev [] alts = match_here prev [] alts"
| "match_word prev (c # cs) alts =
     (case match_here prev (c # cs) alts of
        Some w \<Rightarrow> Some w
      | None \<Rightarrow> match_word (Some c) cs alts)"

definition newline :: string where
  "newline = [CHR 0x0A]"

definition ellipsis :: string where
  "ellipsis = [CHR 0xE2, CHR 0x80, CHR 0xA6]"

definition rupee :: string where
  "rupee = [CHR 0xE2, CHR 0x82, CHR 0xB9]"

section \<open>Data model\<close>

text \<open>
  The objects the retriever prints and the handlers read. Of a variant, a product record
  and a document only the fields \<^verbatim>\<open>server.js\<close> reads are kept. \<^verbatim>\<open>pi.variants\<close> and
  \<^verbatim>\<open>pi.images\<close> are read through \<^verbatim>\<open>Array.isArray(x) ? x : []\<close>, so an absent or non-array
  value is the empty list here.
\<close>

record variant =
  color :: "string option"
  size_v :: "string option"
  price :: "string option"
  compare_at_price :: "string option"
  available :: "bool option"
  weight :: "string option"
  weight_unit :: "string option"

record image =
  img_src :: "string option"
  img_url :: "string option"
  img_image :: "string option"

record product_info =
  variants :: "variant list"
  images :: "image list"
  best_price :: "string option"
  price_range :: "string option"
  warranty :: "string option"
  shipping_info :: "string option"
  materials :: "string option"
  care :: "string option"

record document =
  title :: "string option"
  url :: "string option"
  score :: "rat option"
  doc_text :: "string option"
  product_info :: "product_info option"

text \<open>The object \<^verbatim>\<open>{title: r.title, url: r.url, score: r.score}\<close> built from a document.\<close>

record source =
  src_title :: "string option"
  src_url :: "string option"
  src_score :: "rat option"

definition source_of :: "document \<Rightarrow> source" where
  "source_of r = \<lparr>src_title = title r, src_url = url r, src_score = score r\<rparr>"

datatype role = User | Assistant

record chat_message =
  role :: role
  content :: string
  timestamp :: nat
  searchResults :: "source list option"

record session_context =
  orderId :: "string option"
  customerInfo :: "string option"

record session =
  sess_id :: string
  createdAt :: nat
  sess_context :: session_context
  messages :: "chat_message list"

text \<open>\<^verbatim>\<open>userSessions\<close>, the map from session identifiers to session objects.\<close>

type_synonym store = "string \<rightharpoonup> session"

section \<open>Keyword classifiers and fixed replies\<close>

definition isPersonalizedQuery :: "string \<Rightarrow> bool" where
  "isPersonalizedQuery message =
     includes_any
       [''my order'', ''my refund'', ''my account'', ''my purchase'',
        ''my delivery'', ''my package'', ''my return'', ''my payment'',
        ''my shipping'', ''i ordered'', ''i bought'', ''i purchased'',
        ''i paid'', ''i returned'']
       (toLowerCase message)"

definition order_template :: string where
  "order_template = ''To check your order status, please provide your order number. If you don't have it, you can find it in your order confirmation email.''"

definition refund_template :: string where
  "refund_template = ''To check your refund status, please provide your order number and the date of your refund request. You can also check your refund status in your account dashboard.''"

definition return_template :: string where
  "return_template = ''For return status, please provide your return authorization number. You can find this in your return confirmation email.''"

definition payment_template :: string where
  "payment_template = ''For payment-related queries, please check your order confirmation email or your account dashboard. For security reasons, I can't access specific payment details here.''"

definition generic_template :: string where
  "generic_template = ''I notice you're asking about your personal information. To help you better, please provide relevant details like your order number or reference number. Alternatively, you can check your account dashboard for this information.''"

definition handlePersonalizedQuery :: "string \<Rightarrow> string" where
  "handlePersonalizedQuery message =
     (let lowerMessage = toLowerCase message in
      if str_includes lowerMessage ''order'' \<or> str_includes lowerMessage ''delivery'' \<or>
         str_includes lowerMessage ''package''
      then order_template
      else if str_includes lowerMessage ''refund'' then refund_template
      else if str_includes lowerMessage ''return'' then return_template
      else if str_includes lowerMessage ''payment'' then payment_template
      else generic_template)"

definition isOrderTrackingQuery :: "string \<Rightarrow> bool" where
  "isOrderTrackingQuery message =
     includes_any
       [''track'', ''order'', ''tracking'', ''status'', ''where is my order'',
        ''shipment'', ''delivery'', ''shipped'', ''delivered'']
       (toLowerCase message)"

definition isProductQuery :: "string \<Rightarrow> bool" where
  "isProductQuery message =
     includes_any
       [''price'', ''cost'', ''material'', ''size'', ''color'', ''product'',
        ''buy'', ''purchase'', ''available'', ''stock'', ''features'']
       (toLowerCase message)"

text \<open>
  \<^verbatim>\<open>generateMockTrackingInfo\<close>: the entry of the table at index
  \<^verbatim>\<open>Math.floor(Math.random() * statuses.length)\<close>; the index is the argument \<open>pick\<close>.
\<close>

definition statuses :: "(string \<times> string) list" where
  "statuses =
     [(''Processing'', ''Your order is being prepared for shipment.''),
      (''Shipped'', ''Your order has been shipped and is on its way to you.''),
      (''In Transit'', ''Your package is currently in transit to your delivery address.''),
      (''Out for Delivery'', ''Your package is out for delivery and should arrive today.''),
      (''Delivered'', ''Your order has been delivered successfully.'')]"

definition generateMockTrackingInfo :: "nat \<Rightarrow> string \<Rightarrow> string \<times> string" where
  "generateMockTrackingInfo pick order = statuses ! (pick mod length statuses)"

definition ask_order_id :: string where
  "ask_order_id = ''I'd be happy to help you track your order! Please provide your order ID or order number.''"

definition handleOrderTracking :: "nat \<Rightarrow> string \<Rightarrow> session \<Rightarrow> string" where
  "handleOrderTracking pick message sess =
     (if truthy (orderId (sess_context sess))
      then (let trackingInfo = generateMockTrackingInfo pick (or_empty (orderId (sess_context sess)))
            in ''Your order '' @ or_empty (orderId (sess_context sess)) @ '' status: '' @
               fst trackingInfo @ ''. '' @ snd trackingInfo)
      else ask_order_id)"

section \<open>The product answer\<close>

text \<open>
  The tests of \<^verbatim>\<open>filterByAttributes\<close> and of \<^verbatim>\<open>formatProductAnswer\<close> on one variant and on one
  text: \<^verbatim>\<open>(!color || (v.color || '').toLowerCase() === color) && (!size || ...)\<close> and
  \<^verbatim>\<open>(!color || text.includes(color)) && (!size || text.includes(size))\<close>.
\<close>

definition variant_matches :: "string option \<Rightarrow> string option \<Rightarrow> variant \<Rightarrow> bool" where
  "variant_matches col sz v =
     ((\<not> truthy col \<or> Some (toLowerCase (or_empty (color v))) = col) \<and>
      (\<not> truthy sz \<or> Some (toLowerCase (or_empty (size_v v))) = sz))"

definition text_matches :: "string option \<Rightarrow> string option \<Rightarrow> string \<Rightarrow> bool" where
  "text_matches col sz txt =
     ((\<not> truthy col \<or> str_includes txt (or_empty col)) \<and>
      (\<not> truthy sz \<or> str_includes txt (or_empty sz)))"

definition product_info_of :: "document \<Rightarrow> product_info" where
  "product_info_of h =
     (case product_info h of
        Some p \<Rightarrow> p
      | None \<Rightarrow> \<lparr>variants = [], images = [], best_price = None, price_range = None,
                 warranty = None, shipping_info = None, materials = None, care = None\<rparr>)"

text \<open>The body of the loop of \<^verbatim>\<open>filterByAttributes\<close>: is \<open>h\<close> pushed onto \<open>pick\<close>?\<close>

definition picks :: "string option \<Rightarrow> string option \<Rightarrow> document \<Rightarrow> bool" where
  "picks col sz h =
     (let p = product_info_of h;
          hasVariant = list_ex (variant_matches col sz) (variants p);
          txt = toLowerCase (or_empty (doc_text h));
          okText = text_matches col sz txt
      in hasVariant \<or> okText)"

fun filter_loop ::
  "string option \<Rightarrow> string option \<Rightarrow> document list \<Rightarrow> document list \<Rightarrow> document list" where
  "filter_loop col sz pick [] = pick"
| "filter_loop col sz pick (h # hits) =
     filter_loop col sz (if picks col sz h then pick @ [h] else pick) hits"

definition filterByAttributes ::
  "document list \<Rightarrow> string option \<Rightarrow> string option \<Rightarrow> document list" where
  "filterByAttributes hits col sz =
     (if \<not> truthy col \<and> \<not> truthy sz then hits
      else (let pick = filter_loop col sz [] hits in if pick \<noteq> [] then pick else hits))"

text \<open>The eight intent patterns, each tested on the lower-cased query.\<close>

definition priceIntent :: "string \<Rightarrow> bool" where
  "priceIntent lower = includes_any [''price'', ''cost'', ''how much'', rupee, ''$''] lower"

definition availabilityIntent :: "string \<Rightarrow> bool" where
  "availabilityIntent lower =
     includes_any [''available'', ''in stock'', ''out of stock'', ''stock''] lower"

definition materialIntent :: "string \<Rightarrow> bool" where
  "materialIntent lower =
     includes_any
       [''material'', ''quality'', ''fabric'', ''cotton'', ''leather'', ''steel'', ''wash'',
        ''care'', ''durable'', ''handmade'']
       lower"

definition optionsIntent :: "string \<Rightarrow> bool" where
  "optionsIntent lower =
     includes_any
       [''size'', ''sizes'', ''color'', ''colour'', ''colors'', ''options'', ''variants''] lower"

definition shippingIntent :: "string \<Rightarrow> bool" where
  "shippingIntent lower =
     includes_any
       [''shipping'', ''delivery'', ''returns'', ''refund'', ''warranty policy'',
        ''return policy'']
       lower"

definition warrantyIntent :: "string \<Rightarrow> bool" where
  "warrantyIntent lower = includes_any [''warranty'', ''guarantee''] lower"

definition imageIntent :: "string \<Rightarrow> bool" where
  "imageIntent lower = includes_any [''image'', ''photo'', ''picture''] lower"

definition weightIntent :: "string \<Rightarrow> bool" where
  "weightIntent lower = includes_any [''weight'', ''heavy'', ''light''] lower"

text \<open>The requested attributes.\<close>

definition requested_color :: "string \<Rightarrow> string option" where
  "requested_color lower =
     match_word None lower
       [''blue'', ''green'', ''purple'', ''red'', ''black'', ''white'', ''gold'', ''silver'']"

definition requested_size :: "string \<Rightarrow> string option" where
  "requested_size lower =
     (let sizeRaw =
            match_word None lower
              [''xs'', ''s'', ''m'', ''l'', ''xl'', ''xxl'', ''small'', ''medium'', ''large'']
      in if truthy sizeRaw
         then Some (replace_first
                      (replace_first (replace_first (or_empty sizeRaw) ''small'' ''s'')
                         ''medium'' ''m'')
                      ''large'' ''l'')
         else None)"

text \<open>The loop that keeps the first document of every URL and drops documents without one.\<close>

fun dedupe_loop :: "string set \<Rightarrow> document list \<Rightarrow> document list \<Rightarrow> document list" where
  "dedupe_loop seen unique [] = unique"
| "dedupe_loop seen unique (h # hits) =
     (if truthy (url h) \<and> or_empty (url h) \<notin> seen
      then dedupe_loop (insert (or_empty (url h)) seen) (unique @ [h]) hits
      else dedupe_loop seen unique hits)"

text \<open>\<^verbatim>\<open>variants.find(...) || variants[0]\<close>.\<close>

definition pick_variant :: "string option \<Rightarrow> string option \<Rightarrow> variant list \<Rightarrow> variant option" where
  "pick_variant col sz vs =
     (case find (variant_matches col sz) vs of
        Some v \<Rightarrow> Some v
      | None \<Rightarrow> (case vs of [] \<Rightarrow> None | v # _ \<Rightarrow> Some v))"

definition in_stock :: "variant \<Rightarrow> bool" where
  "in_stock v = (available v = Some True)"

definition snippet_of :: "document \<Rightarrow> string" where
  "snippet_of r = trim (take 220 (or_empty (doc_text r)))"

text \<open>The lines each block of the loop body pushes, block by block in the source's order.\<close>

definition price_lines :: "bool \<Rightarrow> variant option \<Rightarrow> product_info \<Rightarrow> string list" where
  "price_lines wanted vMatch p =
     (if wanted \<and> (vMatch \<noteq> None \<or> truthy (best_price p)) then
        (case (case vMatch of None \<Rightarrow> None
                            | Some v \<Rightarrow> if truthy (price v) then Some v else None) of
           Some v \<Rightarrow>
             (let cur = or_empty (price v);
                  was = trim (or_empty (compare_at_price v));
                  avail = (if in_stock v then ''(in stock)'' else ''(out of stock)'')
              in if was \<noteq> [] then [''Price: '' @ cur @ '' (was '' @ was @ '') '' @ avail]
                 else [''Price: '' @ cur @ '' '' @ avail])
         | None \<Rightarrow>
             (if truthy (best_price p) then
                (let range = trim (or_empty (price_range p))
                 in [''Price from: '' @ (if range \<noteq> [] then range else or_empty (best_price p))])
              else []))
      else [])"

definition availability_lines :: "bool \<Rightarrow> variant option \<Rightarrow> string list" where
  "availability_lines wanted vMatch =
     (case vMatch of
        None \<Rightarrow> []
      | Some v \<Rightarrow>
          if wanted then
            [''Availability: '' @ (if in_stock v then ''in stock'' else ''out of stock'')] @
            (if truthy (price v) then
               (let was = trim (or_empty (compare_at_price v))
                in [''Price: '' @ or_empty (price v) @
                    (if was \<noteq> [] then '' (was '' @ was @ '')'' else [])])
             else [])
          else [])"

definition material_lines :: "bool \<Rightarrow> string \<Rightarrow> string \<Rightarrow> string \<Rightarrow> string list" where
  "material_lines wanted mats cr snippet =
     (if wanted then
        (if mats \<noteq> [] then [''Materials: '' @ mats] else []) @
        (if cr \<noteq> [] then [''Care: '' @ cr] else []) @
        (if mats = [] \<and> cr = [] then [snippet @ ellipsis] else [])
      else [])"

definition options_lines :: "bool \<Rightarrow> variant list \<Rightarrow> string \<Rightarrow> string list" where
  "options_lines wanted vs snippet =
     (if wanted then
        (if vs \<noteq> [] then
           (let colors = set_spread [] (filter (\<lambda>s. s \<noteq> []) (map (\<lambda>v. trim (or_empty (color v))) vs));
                sizes = set_spread [] (filter (\<lambda>s. s \<noteq> []) (map (\<lambda>v. trim (or_empty (size_v v))) vs))
            in (if colors \<noteq> [] then [''Colors: '' @ join '', '' colors] else []) @
               (if sizes \<noteq> [] then [''Sizes: '' @ join '', '' sizes] else []))
         else [snippet @ ellipsis])
      else [])"

definition warranty_lines :: "bool \<Rightarrow> string \<Rightarrow> string list" where
  "warranty_lines wanted w =
     (if wanted then
        (if w \<noteq> [] then [''Warranty: '' @ w]
         else [''Warranty details not specified on the product page.''])
      else [])"

definition shipping_lines :: "bool \<Rightarrow> string \<Rightarrow> string list" where
  "shipping_lines wanted shippingInfo =
     (if wanted then
        (if shippingInfo \<noteq> [] then [''Shipping: '' @ shippingInfo]
         else [''Shipping/returns details not specified here. Check the store policy page via the link below.''])
      else [])"

text \<open>\<^verbatim>\<open>mainImage && (mainImage.src || mainImage.url || mainImage.image || '')\<close>.\<close>

definition mainImageSrc :: "image list \<Rightarrow> string" where
  "mainImageSrc imgs =
     (case imgs of
        [] \<Rightarrow> []
      | i # _ \<Rightarrow>
          if truthy (img_src i) then or_empty (img_src i)
          else if truthy (img_url i) then or_empty (img_url i)
          else or_empty (img_image i))"

definition image_lines :: "bool \<Rightarrow> image list \<Rightarrow> string list" where
  "image_lines wanted imgs =
     (if wanted then
        (if mainImageSrc imgs \<noteq> [] then [''Image: '' @ mainImageSrc imgs]
         else [''No image found in metadata; see product page.''])
      else [])"

definition weight_lines :: "bool \<Rightarrow> variant option \<Rightarrow> string list" where
  "weight_lines wanted vMatch =
     (case vMatch of
        None \<Rightarrow> []
      | Some v \<Rightarrow>
          if wanted then
            (let w = (if weight v \<noteq> None \<and> weight v \<noteq> Some [] then weight v else None);
                 wu = trim (or_empty (weight_unit v))
             in if truthy w
                then [''Weight: '' @ or_empty w @ (if wu \<noteq> [] then '' '' @ wu else [])]
                else [''Weight not specified for this variant.''])
          else [])"

definition general_lines ::
  "product_info \<Rightarrow> string \<Rightarrow> string \<Rightarrow> variant list \<Rightarrow> variant option \<Rightarrow> string list" where
  "general_lines p mats cr vs vMatch =
     (if truthy (best_price p) then [''Price from: '' @ or_empty (best_price p)] else []) @
     (if mats \<noteq> [] then [''Materials: '' @ mats] else []) @
     (if cr \<noteq> [] then [''Care: '' @ cr] else []) @
     (case vMatch of
        None \<Rightarrow> []
      | Some v \<Rightarrow>
          if vs \<noteq> [] \<and> available v \<noteq> None
          then [''Availability: '' @ (if in_stock v then ''in stock'' else ''out of stock'')]
          else [])"

text \<open>One pass of the loop over \<open>picked\<close>: the array \<open>lines\<close> of the picked document.\<close>

definition product_lines :: "string \<Rightarrow> string option \<Rightarrow> string option \<Rightarrow> document \<Rightarrow> string list" where
  "product_lines lower col sz r =
     (let p = product_info_of r;
          ttl = (if truthy (title r) then or_empty (title r) else ''Product'');
          link = or_empty (url r);
          snippet = snippet_of r;
          vs = variants p;
          vMatch = pick_variant col sz vs;
          wrnty = trim (or_empty (warranty p));
          shippingInfo = trim (or_empty (shipping_info p));
          mats = trim (or_empty (materials p));
          cr = trim (or_empty (care p));
          lines =
            [ttl] @
            price_lines (priceIntent lower) vMatch p @
            availability_lines (availabilityIntent lower) vMatch @
            material_lines (materialIntent lower) mats cr snippet @
            options_lines (optionsIntent lower) vs snippet @
            warranty_lines (warrantyIntent lower) wrnty @
            shipping_lines (shippingIntent lower) shippingInfo @
            image_lines (imageIntent lower) (images p) @
            weight_lines (weightIntent lower) vMatch;
          lines' =
            (if \<not> priceIntent lower \<and> \<not> availabilityIntent lower \<and> \<not> materialIntent lower \<and>
                \<not> optionsIntent lower \<and> \<not> warrantyIntent lower \<and> \<not> shippingIntent lower \<and>
                \<not> imageIntent lower \<and> \<not> weightIntent lower
             then (let g = lines @ general_lines p mats cr vs vMatch
                   in if length g = 1 then g @ [snippet @ ellipsis] else g)
             else lines)
      in lines' @ [''More details: '' @ link])"

definition formatProductAnswer :: "string \<Rightarrow> document list \<Rightarrow> string" where
  "formatProductAnswer query hits =
     (let lower = toLowerCase query;
          col = requested_color lower;
          sz = requested_size lower;
          unique = dedupe_loop {} [] hits;
          filtered = filterByAttributes unique col sz;
          picked = take 1 filtered
      in join (newline @ newline)
           (map (\<lambda>r. join newline (product_lines lower col sz r)) picked))"

section \<open>Retrieval and the reply\<close>

text \<open>
  What \<^verbatim>\<open>JSON.parse(output)\<close> yields when it does not throw: an array of documents, or a
  value that is not an array.
\<close>

datatype search_results = NotArray | Docs "document list"

text \<open>
  One run of the search subprocess as the \<^verbatim>\<open>close\<close> handler sees it: the exit code, and the
  parse of what the process printed (\<open>None\<close> when \<^verbatim>\<open>JSON.parse\<close> throws).
\<close>

record search_run =
  exit_code :: int
  printed :: "search_results option"

datatype search_error = SearchFailed | ParseFailed

definition searchKnowledgeBase :: "search_run \<Rightarrow> search_error + search_results" where
  "searchKnowledgeBase run =
     (if exit_code run = 0
      then (case printed run of Some results \<Rightarrow> Inr results | None \<Rightarrow> Inl ParseFailed)
      else Inl SearchFailed)"

definition not_found_reply :: string where
  "not_found_reply = ''I'm sorry, I couldn't find specific information about that. Could you please rephrase your question or ask about something else I might be able to help with?''"

definition generateResponse :: "string \<Rightarrow> search_results \<Rightarrow> session \<Rightarrow> string" where
  "generateResponse message results sess =
     (if isPersonalizedQuery message then handlePersonalizedQuery message
      else (let top = (case results of Docs rs \<Rightarrow> take 3 rs | NotArray \<Rightarrow> []) in
            if top = [] then not_found_reply
            else if isProductQuery message then formatProductAnswer message top
            else (let ctxt = join (newline @ newline)
                               (map (\<lambda>r. take 300 (or_empty (doc_text r))) top)
                  in ''Based on the information I found:'' @ newline @ newline @ ctxt @
                     newline @ newline @
                     ''Would you like me to provide more specific details about any particular aspect?'')))"

section \<open>The handlers\<close>

text \<open>
  A request body, with each field absent or a string; the response sent, as its status
  and JSON body; and what one turn reads from outside: the clock at each of its three
  \<^verbatim>\<open>new Date()\<close>, the index \<^verbatim>\<open>generateMockTrackingInfo\<close> draws, and the run of the search
  subprocess at line 150 and at line 156.
\<close>

record request =
  message :: "string option"
  sessionId :: "string option"

datatype body =
    ErrorBody string "string option"
  | ChatBody string string "source list option"
  | TrackBody string "string \<times> string"

datatype http_response = Response nat body

record turn_env =
  now_created :: nat
  now_user :: nat
  now_assistant :: nat
  random_pick :: nat
  first_search :: search_run
  second_search :: search_run

text \<open>
  The result of a turn: the response, the store afterwards, and how many times
  \<^verbatim>\<open>searchKnowledgeBase\<close> was called.
\<close>

record turn_result =
  reply :: http_response
  store_after :: store
  searches :: nat

definition new_session :: "string \<Rightarrow> nat \<Rightarrow> session" where
  "new_session sid now =
     \<lparr>sess_id = sid, createdAt = now,
      sess_context = \<lparr>orderId = None, customerInfo = None\<rparr>, messages = []\<rparr>"

definition push :: "chat_message \<Rightarrow> session \<Rightarrow> session" where
  "push m sess = sess\<lparr>messages := messages sess @ [m]\<rparr>"

definition trouble_reply :: string where
  "trouble_reply = ''I'm having trouble searching the knowledge base right now. Please try again shortly.''"

definition internal_error :: http_response where
  "internal_error =
     Response 500
       (ErrorBody ''Internal server error''
          (Some ''Failed to process your message. Please try again.''))"

text \<open>
  Lines 154 to 195 of the chat handler, which every turn reaches that got past the branch
  on \<^verbatim>\<open>isOrderTrackingQuery\<close>. The argument \<open>response\<close> is the reply computed so far; the
  assignment at line 167 replaces it.
\<close>

definition chat_rest ::
  "store \<Rightarrow> turn_env \<Rightarrow> string \<Rightarrow> string \<Rightarrow> session \<Rightarrow> string \<Rightarrow> nat \<Rightarrow> turn_result" where
  "chat_rest st env msg sid sess response n =
     (case searchKnowledgeBase (second_search env) of
        Inl e \<Rightarrow>
          \<lparr>reply = Response 200 (ChatBody trouble_reply sid None),
           store_after = st, searches = n + 1\<rparr>
      | Inr rawResults \<Rightarrow>
          (let normResults = (case rawResults of Docs rs \<Rightarrow> rs | NotArray \<Rightarrow> []);
               response = generateResponse msg (Docs normResults) sess;
               sess = push \<lparr>role = Assistant, content = response,
                             timestamp = now_assistant env,
                             searchResults = Some (map source_of normResults)\<rparr> sess
           in \<lparr>reply = Response 200
                          (ChatBody response sid (Some (map source_of (take 3 normResults)))),
               store_after = st(sid \<mapsto> sess), searches = n + 1\<rparr>))"

text \<open>
  \<^verbatim>\<open>app.post('/api/chat')\<close>. When the store already holds the session, \<^verbatim>\<open>session\<close> is the
  stored object itself, so pushing the user message changes the store at once; a session
  created by this turn is in the store only after \<^verbatim>\<open>userSessions.set\<close>. The search at line
  150 is outside the inner \<^verbatim>\<open>try\<close>: its rejection is caught at line 197.
\<close>

fun chat :: "store \<Rightarrow> turn_env \<Rightarrow> request \<Rightarrow> turn_result" where
  "chat st env req =
     (if \<not> truthy (message req) \<or> \<not> truthy (sessionId req) then
        \<lparr>reply = Response 400 (ErrorBody ''Message and sessionId are required'' None),
         store_after = st, searches = 0\<rparr>
      else
        (let msg = or_empty (message req);
             sid = or_empty (sessionId req);
             user_message = \<lparr>role = User, content = msg, timestamp = now_user env,
                             searchResults = None\<rparr>;
             sess = push user_message
                      (case st sid of Some s \<Rightarrow> s | None \<Rightarrow> new_session sid (now_created env));
             st = (case st sid of Some s \<Rightarrow> st(sid \<mapsto> sess) | None \<Rightarrow> st)
         in if isOrderTrackingQuery msg then
              chat_rest st env msg sid sess (handleOrderTracking (random_pick env) msg sess) 0
            else
              (case searchKnowledgeBase (first_search env) of
                 Inl e \<Rightarrow> \<lparr>reply = internal_error, store_after = st, searches = 1\<rparr>
               | Inr results \<Rightarrow>
                   chat_rest st env msg sid sess (generateResponse msg results sess) 1)))"

text \<open>\<^verbatim>\<open>app.post('/api/track-order')\<close>, which is what sets \<^verbatim>\<open>context.orderId\<close>.\<close>

record track_request =
  tr_orderId :: "string option"
  tr_sessionId :: "string option"
  tr_customerInfo :: "string option"

fun track_order :: "store \<Rightarrow> nat \<Rightarrow> nat \<Rightarrow> track_request \<Rightarrow> http_response \<times> store" where
  "track_order st now pick req =
     (if \<not> truthy (tr_orderId req) \<or> \<not> truthy (tr_sessionId req) then
        (Response 400 (ErrorBody ''Order ID and session ID are required'' None), st)
      else
        (let order = or_empty (tr_orderId req);
             sid = or_empty (tr_sessionId req);
             sess = (case st sid of Some s \<Rightarrow> s | None \<Rightarrow> new_session sid now);
             sess = sess\<lparr>sess_context := (sess_context sess)\<lparr>orderId := Some order\<rparr>\<rparr>;
             sess = (if truthy (tr_customerInfo req)
                     then sess\<lparr>sess_context :=
                                 (sess_context sess)\<lparr>customerInfo := tr_customerInfo req\<rparr>\<rparr>
                     else sess)
         in (Response 200 (TrackBody order (generateMockTrackingInfo pick order)),
             st(sid \<mapsto> sess))))"

text \<open>A conversation: the turns run one after the other on the store the last one left.\<close>

fun run_turns :: "store \<Rightarrow> (turn_env \<times> request) list \<Rightarrow> store" where
  "run_turns st [] = st"
| "run_turns st ((env, req) # rest) = run_turns (store_after (chat st env req)) rest"


section \<open>Notions the properties are stated with\<close>

text \<open>
  The condition under which \<^verbatim>\<open>filterByAttributes\<close> keeps a document, in the words of the
  specification: the product record has a variant whose colour and size are the requested
  ones (each compared only when requested, the variant's value lower-cased), or the
  lower-cased text contains every requested token.
\<close>

definition variant_qualifies :: "string option \<Rightarrow> string option \<Rightarrow> variant \<Rightarrow> bool" where
  "variant_qualifies col sz v =
     ((truthy col \<longrightarrow> toLowerCase (or_empty (color v)) = or_empty col) \<and>
      (truthy sz \<longrightarrow> toLowerCase (or_empty (size_v v)) = or_empty sz))"

definition text_qualifies :: "string option \<Rightarrow> string option \<Rightarrow> document \<Rightarrow> bool" where
  "text_qualifies col sz h =
     ((truthy col \<longrightarrow> str_includes (toLowerCase (or_empty (doc_text h))) (or_empty col)) \<and>
      (truthy sz \<longrightarrow> str_includes (toLowerCase (or_empty (doc_text h))) (or_empty sz)))"

definition qualifies :: "string option \<Rightarrow> string option \<Rightarrow> document \<Rightarrow> bool" where
  "qualifies col sz h =
     ((\<exists>v \<in> set (variants (product_info_of h)). variant_qualifies col sz v) \<or>
      text_qualifies col sz h)"

text \<open>
  \<^verbatim>\<open>normResults\<close>: the documents of the turn, which are those of the search at line 156, and
  none when its output is not an array.
\<close>

definition retrieved :: "turn_env \<Rightarrow> document list" where
  "retrieved env =
     (case searchKnowledgeBase (second_search env) of
        Inr (Docs rs) \<Rightarrow> rs
      | _ \<Rightarrow> [])"

text \<open>The \<^verbatim>\<open>response\<close> field of a response body.\<close>

definition response_text :: "http_response \<Rightarrow> string" where
  "response_text r = (case r of Response _ (ChatBody txt _ _) \<Rightarrow> txt | _ \<Rightarrow> [])"

text \<open>The roles of the messages a store holds for a session.\<close>

definition stored_roles :: "store \<Rightarrow> string \<Rightarrow> role list option" where
  "stored_roles st sid = map_option (\<lambda>s. map role (messages s)) (st sid)"

text \<open>The messages a store holds for a session, none when it has no such session.\<close>

definition history :: "store \<Rightarrow> string \<Rightarrow> chat_message list" where
  "history st sid = (case st sid of None \<Rightarrow> [] | Some s \<Rightarrow> messages s)"

text \<open>
  A turn returns normally when it reaches line 187, that is, when its body has a
  \<^verbatim>\<open>sources\<close> array; \<open>normal_turns\<close> says so of every turn of a conversation on one session.
\<close>

definition normal_return :: "http_response \<Rightarrow> bool" where
  "normal_return r = (case r of Response _ (ChatBody _ _ (Some _)) \<Rightarrow> True | _ \<Rightarrow> False)"

fun normal_turns :: "store \<Rightarrow> string \<Rightarrow> (turn_env \<times> request) list \<Rightarrow> bool" where
  "normal_turns st sid [] = True"
| "normal_turns st sid ((env, req) # rest) =
     (sessionId req = Some sid \<and> normal_return (reply (chat st env req)) \<and>
      normal_turns (store_after (chat st env req)) sid rest)"

section \<open>Example inputs\<close>

text \<open>
  Runs of the search subprocess that print an array of documents and that exit with
  code 1, an environment made of two runs, a request, and a few documents.
\<close>

definition run_ok :: "document list \<Rightarrow> search_run" where
  "run_ok rs = \<lparr>exit_code = 0, printed = Some (Docs rs)\<rparr>"

definition run_failed :: search_run where
  "run_failed = \<lparr>exit_code = 1, printed = None\<rparr>"

definition env_of :: "search_run \<Rightarrow> search_run \<Rightarrow> turn_env" where
  "env_of a b =
     \<lparr>now_created = 1000, now_user = 1001, now_assistant = 1002, random_pick = 0,
      first_search = a, second_search = b\<rparr>"

definition ask :: "string \<Rightarrow> string \<Rightarrow> request" where
  "ask msg sid = \<lparr>message = Some msg, sessionId = Some sid\<rparr>"

definition hoodie_question :: string where
  "hoodie_question = ''What is the price of the blue hoodie in size M?''"

definition hoodie_lower :: string where
  "hoodie_lower = ''what is the price of the blue hoodie in size m?''"

definition blue_m :: "string \<Rightarrow> variant" where
  "blue_m p =
     \<lparr>color = Some ''Blue'', size_v = Some ''M'', price = Some p, compare_at_price = None,
      available = Some True, weight = None, weight_unit = None\<rparr>"

definition hoodie :: "string option \<Rightarrow> variant list \<Rightarrow> document" where
  "hoodie link vs =
     \<lparr>title = Some ''Hoodie'', url = link, score = Some 1,
      doc_text = Some ''A warm hoodie.'',
      product_info =
        Some \<lparr>variants = vs, images = [], best_price = None, price_range = None,
              warranty = None, shipping_info = None, materials = None, care = None\<rparr>\<rparr>"

definition faq :: document where
  "faq =
     \<lparr>title = Some ''FAQ'', url = Some ''https://shop/faq'', score = Some 2,
      doc_text = Some ''Our blue items come in many sizes.'', product_info = None\<rparr>"

definition shipping_note :: document where
  "shipping_note =
     \<lparr>title = Some ''Shipping'', url = Some ''https://shop/shipping'', score = Some (1 / 2),
      doc_text = Some ''Orders leave in 3 days.'', product_info = None\<rparr>"

definition about_us :: document where
  "about_us =
     \<lparr>title = Some ''About'', url = Some ''https://shop/about'', score = Some (1 / 4),
      doc_text = Some ''A small shop.'', product_info = None\<rparr>"

section \<open>Lemmas about the loops and the handler\<close>

declare chat.simps [simp del]

lemma filter_loop_filter: "filter_loop col sz pick hits = pick @ filter (picks col sz) hits"
  by (induction hits arbitrary: pick) simp_all

lemma variant_matches_qualifies: "variant_matches col sz v = variant_qualifies col sz v"
  by (cases col; cases sz)
     (auto simp: variant_matches_def variant_qualifies_def truthy_def or_empty_def)

lemma picks_qualifies: "picks col sz = qualifies col sz"
proof
  fix h
  show "picks col sz h = qualifies col sz h"
    by (cases col; cases sz)
       (auto simp: picks_def qualifies_def text_matches_def text_qualifies_def Let_def
          variant_matches_qualifies list_ex_iff truthy_def or_empty_def)
qed

lemma dedupe_loop_append: "dedupe_loop seen unique hits = unique @ dedupe_loop seen [] hits"
proof (induction hits arbitrary: seen unique)
  case Nil
  show ?case by simp
next
  case (Cons h hits)
  show ?case
    using Cons.IH [of "insert (or_empty (url h)) seen" "unique @ [h]"]
      Cons.IH [of "insert (or_empty (url h)) seen" "[h]"] Cons.IH [of seen unique]
    by simp
qed

lemma dedupe_loop_has_url: "h \<in> set (dedupe_loop seen [] hits) \<Longrightarrow> truthy (url h)"
proof (induction hits arbitrary: seen)
  case Nil
  then show ?case by simp
next
  case (Cons a hits)
  then show ?case
    using dedupe_loop_append [of "insert (or_empty (url a)) seen" "[a]" hits]
    by (auto split: if_splits)
qed

lemma dedupe_loop_drops:
  "dedupe_loop seen unique (filter (\<lambda>h. truthy (url h)) hits) = dedupe_loop seen unique hits"
  by (induction hits arbitrary: seen unique) simp_all

lemma dedupe_loop_no_url:
  "\<forall>h \<in> set hits. \<not> truthy (url h) \<Longrightarrow> dedupe_loop seen unique hits = unique"
  by (induction hits arbitrary: seen unique) simp_all

lemma filterByAttributes_Nil: "filterByAttributes [] col sz = []"
  by (simp add: filterByAttributes_def)

lemma str_includes_sublist: "str_includes s sub = sublist sub s"
  by (induction s) (simp_all add: sublist_Cons_right)

lemma str_includes_middle: "str_includes (a @ sub @ b) sub"
  by (simp add: str_includes_sublist)

lemma join_snoc: "xs \<noteq> [] \<Longrightarrow> join sep (xs @ [m]) = join sep xs @ sep @ m"
  by (induction sep xs rule: join.induct) simp_all

lemma find_Some_set: "find P xs = Some x \<Longrightarrow> x \<in> set xs \<and> P x"
  by (induction xs) (auto split: if_splits)

text \<open>
  The first document that has a URL not seen before and passes a test \<open>K\<close> heads what
  is left of the de-duplicated list after filtering by \<open>K\<close>.
\<close>

lemma first_qualifying:
  assumes "\<forall>p \<in> set pre. \<not> truthy (url p) \<or> (url p \<noteq> url d \<and> \<not> K p)"
      and "truthy (url d)" and "or_empty (url d) \<notin> seen" and "K d"
  shows "\<exists>ys. filter K (dedupe_loop seen [] (pre @ d # rest)) = d # ys"
  using assms
proof (induction pre arbitrary: seen)
  case Nil
  then show ?case
    using dedupe_loop_append [of "insert (or_empty (url d)) seen" "[d]" rest] by simp
next
  case (Cons p pre)
  show ?case
  proof (cases "truthy (url p) \<and> or_empty (url p) \<notin> seen")
    case True
    with Cons.prems have np: "\<not> K p" and ne: "url p \<noteq> url d"
      by auto
    from True ne Cons.prems(2) have "or_empty (url p) \<noteq> or_empty (url d)"
      by (auto simp: truthy_def or_empty_def split: option.splits)
    with Cons.prems have "or_empty (url d) \<notin> insert (or_empty (url p)) seen"
      by simp
    with Cons.IH [of "insert (or_empty (url p)) seen"] Cons.prems
    obtain ys where
      "filter K (dedupe_loop (insert (or_empty (url p)) seen) [] (pre @ d # rest)) = d # ys"
      by auto
    with True np show ?thesis
      using dedupe_loop_append [of "insert (or_empty (url p)) seen" "[p]" "pre @ d # rest"]
      by simp
  next
    case False
    with Cons.IH [of seen] Cons.prems show ?thesis
      by auto
  qed
qed

lemma chat_normal_return:
  assumes "reply (chat st env req) = Response code (ChatBody txt sid (Some srcs))"
  shows "srcs = map source_of (take 3 (retrieved env))"
  using assms
  by (auto simp: chat.simps chat_rest_def Let_def retrieved_def internal_error_def
      split: if_splits sum.splits search_results.splits)

lemma generateResponse_session:
  "generateResponse msg results sess = generateResponse msg results sess'"
  by (simp add: generateResponse_def)

lemma isPersonalizedQuery_nonempty: "isPersonalizedQuery msg \<Longrightarrow> msg \<noteq> []"
  by (auto simp: isPersonalizedQuery_def includes_any_def toLowerCase_def)

text \<open>A turn whose searches succeed returns the reply \<^verbatim>\<open>generateResponse\<close> gives at line 167.\<close>

lemma chat_search_ok:
  assumes "message req = Some msg" and "msg \<noteq> []" and "sessionId req = Some sid"
      and "sid \<noteq> []"
      and "isOrderTrackingQuery msg \<or> searchKnowledgeBase (first_search env) = Inr r1"
      and "searchKnowledgeBase (second_search env) = Inr r2"
  shows "reply (chat st env req) =
           Response 200 (ChatBody (generateResponse msg (Docs (retrieved env)) sess) sid
                           (Some (map source_of (take 3 (retrieved env)))))"
proof -
  from assms have "\<exists>s. reply (chat st env req) =
           Response 200 (ChatBody (generateResponse msg (Docs (retrieved env)) s) sid
                           (Some (map source_of (take 3 (retrieved env)))))"
    by (cases r2)
       (auto simp: chat.simps chat_rest_def Let_def retrieved_def truthy_def or_empty_def)
  then show ?thesis
    using generateResponse_session [of msg "Docs (retrieved env)" _ sess] by auto
qed

lemma toLowerCase_hoodie_question: "toLowerCase hoodie_question = hoodie_lower"
  unfolding hoodie_question_def hoodie_lower_def by code_simp

lemma hoodie_classified:
  "\<not> isOrderTrackingQuery hoodie_question" "\<not> isPersonalizedQuery hoodie_question"
  "isProductQuery hoodie_question"
  unfolding hoodie_question_def by code_simp+

lemma hoodie_attributes:
  "requested_color hoodie_lower = Some ''blue''" "requested_size hoodie_lower = Some ''m''"
  unfolding hoodie_lower_def by code_simp+

lemma hoodie_intents:
  "priceIntent hoodie_lower" "\<not> availabilityIntent hoodie_lower"
  "\<not> materialIntent hoodie_lower" "optionsIntent hoodie_lower"
  "\<not> warrantyIntent hoodie_lower" "\<not> shippingIntent hoodie_lower"
  "\<not> imageIntent hoodie_lower" "\<not> weightIntent hoodie_lower"
  unfolding hoodie_lower_def by code_simp+

lemma hoodie_product_lines:
  assumes "find (variant_matches (Some ''blue'') (Some ''m'')) (variants (product_info_of d)) = Some v"
      and "price v = Some ''$40''" and "available v = Some True"
      and "trim (or_empty (compare_at_price v)) = []"
  shows "product_lines hoodie_lower (Some ''blue'') (Some ''m'') d =
           [if truthy (title d) then or_empty (title d) else ''Product'',
            ''Price: $40 (in stock)''] @
           options_lines True (variants (product_info_of d)) (snippet_of d) @
           [''More details: '' @ or_empty (url d)]"
  using assms
  by (simp add: product_lines_def hoodie_intents Let_def pick_variant_def price_lines_def
      availability_lines_def material_lines_def warranty_lines_def shipping_lines_def
      image_lines_def weight_lines_def truthy_def or_empty_def in_stock_def)

lemma hoodie_answer:
  assumes pre: "\<forall>p \<in> set pre. \<not> truthy (url p) \<or>
                  (url p \<noteq> url d \<and> \<not> qualifies (Some ''blue'') (Some ''m'') p)"
      and url: "truthy (url d)"
      and v: "find (variant_matches (Some ''blue'') (Some ''m'')) (variants (product_info_of d)) = Some v"
  shows "formatProductAnswer hoodie_question (pre @ d # rest) =
           join newline (product_lines hoodie_lower (Some ''blue'') (Some ''m'') d)"
proof -
  let ?K = "picks (Some ''blue'') (Some ''m'')"
  from find_Some_set [OF v] have "?K d"
    by (auto simp: picks_def Let_def list_ex_iff)
  with first_qualifying [of pre d ?K "{}" rest] pre url
  obtain ys where ys: "filter ?K (dedupe_loop {} [] (pre @ d # rest)) = d # ys"
    by (auto simp: picks_qualifies)
  then have "filterByAttributes (dedupe_loop {} [] (pre @ d # rest)) (Some ''blue'') (Some ''m'')
               = d # ys"
    by (simp add: filterByAttributes_def filter_loop_filter truthy_def)
  then show ?thesis
    by (simp add: formatProductAnswer_def toLowerCase_hoodie_question hoodie_attributes Let_def)
qed

lemma join_second_line:
  "rest \<noteq> [] \<Longrightarrow> join sep (a # b # rest) = a @ (sep @ b @ sep) @ join sep rest"
  by (cases rest) simp_all

lemma take_three_split:
  "length pre < 3 \<Longrightarrow> \<exists>rest. take 3 (pre @ d # post) = pre @ d # rest"
  by (cases "3 - length pre") simp_all

text \<open>What a turn that returns normally adds to the history of its session.\<close>

lemma normal_turn_history:
  assumes "sessionId req = Some sid" and "normal_return (reply (chat st env req))"
  shows "history (store_after (chat st env req)) sid =
           history st sid @
           [\<lparr>role = User, content = or_empty (message req), timestamp = now_user env,
             searchResults = None\<rparr>,
            \<lparr>role = Assistant, content = response_text (reply (chat st env req)),
             timestamp = now_assistant env,
             searchResults = Some (map source_of (retrieved env))\<rparr>]"
  using assms
  by (auto simp: chat.simps chat_rest_def Let_def truthy_def or_empty_def history_def
      normal_return_def internal_error_def push_def new_session_def response_text_def
      retrieved_def
      split: option.splits if_splits sum.splits search_results.splits)

text \<open>A turn on a message with an order-tracking keyword calls the search once.\<close>

lemma chat_tracking_searches:
  assumes "message req = Some msg" and "msg \<noteq> []" and "sessionId req = Some sid"
      and "sid \<noteq> []" and "isOrderTrackingQuery msg"
  shows "searches (chat st env req) = 1"
  using assms
  by (auto simp: chat.simps chat_rest_def Let_def truthy_def or_empty_def
      split: sum.splits)

section \<open>Properties\<close>

subsection \<open>The personalised reply\<close>

text \<open>
  C1 (as amended). Let the message contain a personalised-account phrase, and let the
  searches of the turn succeed: the one at line 156, and the one at line 150 when the
  message has no order-tracking keyword. Then the turn answers with status 200 and the
  disclaimer template \<^verbatim>\<open>handlePersonalizedQuery\<close> selects for the message, one of the five
  fixed templates, whatever order-tracking or product keywords the message also contains
  and whatever was retrieved. The handler tests \<^verbatim>\<open>isOrderTrackingQuery\<close> first, but the reply
  of that branch is replaced at line 167 by \<^verbatim>\<open>generateResponse\<close>, whose first test is
  \<^verbatim>\<open>isPersonalizedQuery\<close>.
\<close>

theorem personalized_reply:
  assumes "message req = Some msg" and "sessionId req = Some sid" and "sid \<noteq> []"
      and "isPersonalizedQuery msg"
      and "isOrderTrackingQuery msg \<or> searchKnowledgeBase (first_search env) = Inr r1"
      and "searchKnowledgeBase (second_search env) = Inr r2"
  shows "reply (chat st env req) =
           Response 200 (ChatBody (handlePersonalizedQuery msg) sid
                           (Some (map source_of (take 3 (retrieved env))))) \<and>
         handlePersonalizedQuery msg \<in>
           {order_template, refund_template, return_template, payment_template,
            generic_template}"
proof -
  from assms(4) have "msg \<noteq> []"
    by (rule isPersonalizedQuery_nonempty)
  from chat_search_ok [OF assms(1) this assms(2,3,5,6)] assms(4)
  have "reply (chat st env req) =
           Response 200 (ChatBody (handlePersonalizedQuery msg) sid
                           (Some (map source_of (take 3 (retrieved env)))))"
    by (auto simp: generateResponse_def)
  moreover have "handlePersonalizedQuery msg \<in>
           {order_template, refund_template, return_template, payment_template,
            generic_template}"
    by (simp add: handlePersonalizedQuery_def Let_def)
  ultimately show ?thesis by blast
qed

text \<open>
  The message below has a personalised phrase, an order-tracking keyword and a product
  keyword; the search succeeds and the reply is the order template.
\<close>

theorem personalized_reply_witness:
  "isPersonalizedQuery ''What is the price of my order?'' \<and>
   isOrderTrackingQuery ''What is the price of my order?'' \<and>
   isProductQuery ''What is the price of my order?'' \<and>
   reply (chat Map.empty (env_of run_failed (run_ok [faq]))
            (ask ''What is the price of my order?'' ''s1'')) =
     Response 200 (ChatBody order_template ''s1'' (Some [source_of faq]))"
proof -
  have p: "isPersonalizedQuery ''What is the price of my order?''"
    and t: "isOrderTrackingQuery ''What is the price of my order?''"
    and q: "isProductQuery ''What is the price of my order?''"
    and h: "handlePersonalizedQuery ''What is the price of my order?'' = order_template"
    by code_simp+
  have s: "searchKnowledgeBase (second_search (env_of run_failed (run_ok [faq]))) = Inr (Docs [faq])"
    by (simp add: env_of_def run_ok_def searchKnowledgeBase_def)
  from personalized_reply [of "ask ''What is the price of my order?'' ''s1''" _ "''s1''"
      "env_of run_failed (run_ok [faq])" undefined "Docs [faq]" Map.empty] p t s
  have "reply (chat Map.empty (env_of run_failed (run_ok [faq]))
                 (ask ''What is the price of my order?'' ''s1'')) =
     Response 200 (ChatBody (handlePersonalizedQuery ''What is the price of my order?'') ''s1''
        (Some (map source_of (take 3 (retrieved (env_of run_failed (run_ok [faq])))))))"
    by (simp add: ask_def)
  with p t q h s show ?thesis
    by (simp add: retrieved_def)
qed

text \<open>
  Without the hypothesis on the searches the statement fails: when the search at line 156
  exits with code 1, the reply to ``my order'' is the apology of line 161.
\<close>

theorem personalized_reply_counterexample:
  "isPersonalizedQuery ''my order'' \<and>
   reply (chat Map.empty (env_of run_failed run_failed) (ask ''my order'' ''s1'')) =
     Response 200 (ChatBody trouble_reply ''s1'' None) \<and>
   handlePersonalizedQuery ''my order'' \<noteq> trouble_reply"
  by code_simp

subsection \<open>A failing search\<close>

text \<open>
  C2 (the handler does otherwise). The message ``hello'' has no order-tracking keyword, so
  the handler runs the search of line 150; when that run exits with code 1 the rejection
  reaches the outer \<^verbatim>\<open>catch\<close> and the response is the 500 of line 199, not the apology.
\<close>

theorem first_search_failure_is_500:
  "\<not> isOrderTrackingQuery ''hello'' \<and>
   searchKnowledgeBase run_failed = Inl SearchFailed \<and>
   reply (chat Map.empty (env_of run_failed (run_ok [])) (ask ''hello'' ''s1'')) =
     Response 500
       (ErrorBody ''Internal server error''
          (Some ''Failed to process your message. Please try again.''))"
  by code_simp

subsection \<open>Order tracking\<close>

text \<open>
  C3 (as amended). For the message ``track my order'', when the search of the turn
  succeeds, the reply is the order template of the personalised queries and
  \<^verbatim>\<open>searchKnowledgeBase\<close> is called exactly once, whatever the store holds for the session,
  with or without an \<^verbatim>\<open>orderId\<close>. The message has the keyword ``track'', so the search of
  line 150 is not run and \<^verbatim>\<open>handleOrderTracking\<close> is called; the search of line 156 is run
  on every turn, and the reply of line 167 is that of \<^verbatim>\<open>generateResponse\<close>, whose first test
  finds the phrase ``my order''.
\<close>

theorem track_my_order_turn:
  assumes "message req = Some ''track my order''" and "sessionId req = Some sid"
      and "sid \<noteq> []"
      and "searchKnowledgeBase (second_search env) = Inr results"
  shows "reply (chat st env req) =
           Response 200 (ChatBody order_template sid
                           (Some (map source_of (take 3 (retrieved env))))) \<and>
         searches (chat st env req) = 1"
proof -
  have t: "isOrderTrackingQuery ''track my order''"
    and p: "isPersonalizedQuery ''track my order''"
    and h: "handlePersonalizedQuery ''track my order'' = order_template"
    by code_simp+
  have "generateResponse ''track my order'' (Docs (retrieved env)) undefined = order_template"
    by (simp add: generateResponse_def p h)
  with chat_search_ok [OF assms(1) _ assms(2,3) disjI1 [OF t] assms(4), of st undefined]
  have "reply (chat st env req) =
           Response 200 (ChatBody order_template sid
                           (Some (map source_of (take 3 (retrieved env)))))"
    by simp
  moreover have "searches (chat st env req) = 1"
    by (rule chat_tracking_searches [OF assms(1) _ assms(2,3) t]) simp
  ultimately show ?thesis
    by blast
qed

text \<open>
  The session of the witness has an order ID, set by a call of the order-tracking endpoint,
  and the search printed one document.
\<close>

theorem track_my_order_turn_witness:
  "map_option (\<lambda>s. orderId (sess_context s))
     (snd (track_order Map.empty 900 2
             \<lparr>tr_orderId = Some ''B42'', tr_sessionId = Some ''s3'', tr_customerInfo = None\<rparr>)
        ''s3'') = Some (Some ''B42'') \<and>
   reply (chat
            (snd (track_order Map.empty 900 2
                    \<lparr>tr_orderId = Some ''B42'', tr_sessionId = Some ''s3'',
                     tr_customerInfo = None\<rparr>))
            (env_of run_failed (run_ok [faq])) (ask ''track my order'' ''s3'')) =
     Response 200 (ChatBody order_template ''s3'' (Some [source_of faq])) \<and>
   searches (chat
               (snd (track_order Map.empty 900 2
                       \<lparr>tr_orderId = Some ''B42'', tr_sessionId = Some ''s3'',
                        tr_customerInfo = None\<rparr>))
               (env_of run_failed (run_ok [faq])) (ask ''track my order'' ''s3'')) = 1"
proof -
  let ?env = "env_of run_failed (run_ok [faq])"
  let ?st = "snd (track_order Map.empty 900 2
             \<lparr>tr_orderId = Some ''B42'', tr_sessionId = Some ''s3'', tr_customerInfo = None\<rparr>)"
  have o: "map_option (\<lambda>s. orderId (sess_context s)) (?st ''s3'') = Some (Some ''B42'')"
    by code_simp
  have s: "searchKnowledgeBase (second_search ?env) = Inr (Docs [faq])"
    by (simp add: env_of_def run_ok_def searchKnowledgeBase_def)
  from track_my_order_turn [of "ask ''track my order'' ''s3''" "''s3''" ?env _ ?st] s o
  show ?thesis
    by (simp add: ask_def retrieved_def)
qed

text \<open>
  The reply is not the prompt for an order ID and a search is made: in a fresh session,
  whose context has no \<^verbatim>\<open>orderId\<close>, \<^verbatim>\<open>handleOrderTracking\<close> gives the prompt, but the turn
  answers with the order template after one call of \<^verbatim>\<open>searchKnowledgeBase\<close>.
\<close>

theorem track_my_order_reply:
  "handleOrderTracking 0 ''track my order'' (new_session ''s1'' 1000) = ask_order_id \<and>
   reply (chat Map.empty (env_of run_failed (run_ok [])) (ask ''track my order'' ''s1'')) =
     Response 200 (ChatBody order_template ''s1'' (Some [])) \<and>
   searches (chat Map.empty (env_of run_failed (run_ok [])) (ask ''track my order'' ''s1'')) = 1 \<and>
   order_template \<noteq> ask_order_id"
  by code_simp

subsection \<open>The message history\<close>

text \<open>
  C4 (the handler does otherwise). Two turns on the session ``s1'': the first returns
  normally, the second ends in the early return of line 160. The second turn pushed its
  user message onto the stored session object and returned before the assistant message
  was pushed: the history holds three messages after two turns.
\<close>

theorem history_after_failed_turn:
  "reply (chat (run_turns Map.empty [(env_of (run_ok []) (run_ok []), ask ''hello'' ''s1'')])
            (env_of (run_ok []) run_failed) (ask ''hello'' ''s1'')) =
     Response 200 (ChatBody trouble_reply ''s1'' None) \<and>
   stored_roles
     (run_turns Map.empty
        [(env_of (run_ok []) (run_ok []), ask ''hello'' ''s1''),
         (env_of (run_ok []) run_failed, ask ''hello'' ''s1'')]) ''s1'' =
     Some [User, Assistant, User]"
  by code_simp

subsection \<open>Sources\<close>

text \<open>
  C5. When a turn returns normally (a body with a \<^verbatim>\<open>sources\<close> array), the sources are the
  first three entries, at most, of the documents retrieved in that turn, each projected by
  \<^verbatim>\<open>source_of\<close>, in the retriever's order.
\<close>

theorem sources_are_prefix:
  assumes "reply (chat st env req) = Response code (ChatBody txt sid (Some srcs))"
  shows "srcs = take 3 (map source_of (retrieved env)) \<and> length srcs \<le> 3 \<and>
         prefix srcs (map source_of (retrieved env))"
proof -
  have "srcs = take 3 (map source_of (retrieved env))"
    using chat_normal_return [OF assms] by (simp add: take_map)
  then show ?thesis
    by (simp add: take_is_prefix)
qed

theorem sources_are_prefix_witness:
  "reply (chat Map.empty (env_of (run_ok []) (run_ok [faq, shipping_note, about_us, hoodie None []]))
            (ask ''i paid twice'' ''s1'')) =
     Response 200 (ChatBody generic_template ''s1''
                     (Some [source_of faq, source_of shipping_note, source_of about_us])) \<and>
   [source_of faq, source_of shipping_note, source_of about_us] =
     take 3 (map source_of [faq, shipping_note, about_us, hoodie None []]) \<and>
   prefix [source_of faq, source_of shipping_note, source_of about_us]
     (map source_of [faq, shipping_note, about_us, hoodie None []])"
proof -
  have r: "retrieved (env_of (run_ok []) (run_ok [faq, shipping_note, about_us, hoodie None []])) =
             [faq, shipping_note, about_us, hoodie None []]"
    by (simp add: retrieved_def env_of_def run_ok_def searchKnowledgeBase_def)
  have h: "reply (chat Map.empty (env_of (run_ok []) (run_ok [faq, shipping_note, about_us, hoodie None []]))
            (ask ''i paid twice'' ''s1'')) =
     Response 200 (ChatBody generic_template ''s1''
                     (Some [source_of faq, source_of shipping_note, source_of about_us]))"
    by code_simp
  from sources_are_prefix [OF h] h r show ?thesis
    by simp
qed

text \<open>
  C9. Each source of a normal response is the record of the title, the URL and the score
  of the retrieved document at the same position, unchanged; a \<open>source\<close> has no other
  field.
\<close>

theorem source_fields_unchanged:
  assumes "reply (chat st env req) = Response code (ChatBody txt sid (Some srcs))"
      and "i < length srcs"
  shows "i < length (retrieved env) \<and> i < 3 \<and>
         srcs ! i = \<lparr>src_title = title (retrieved env ! i), src_url = url (retrieved env ! i),
                      src_score = score (retrieved env ! i)\<rparr>"
proof -
  have eq: "srcs = map source_of (take 3 (retrieved env))"
    by (rule chat_normal_return [OF assms(1)])
  with assms(2) have i: "i < length (retrieved env)" "i < 3"
    by simp_all
  then have "srcs ! i = source_of (retrieved env ! i)"
    by (simp add: eq)
  with i show ?thesis
    by (simp add: source_of_def)
qed

theorem source_fields_unchanged_witness:
  "reply (chat Map.empty (env_of (run_ok []) (run_ok [faq, shipping_note])) (ask ''i paid twice'' ''s2'')) =
     Response 200 (ChatBody generic_template ''s2'' (Some [source_of faq, source_of shipping_note])) \<and>
   [source_of faq, source_of shipping_note] ! 1 =
     \<lparr>src_title = Some ''Shipping'', src_url = Some ''https://shop/shipping'',
      src_score = Some (1 / 2)\<rparr>"
proof -
  have r: "retrieved (env_of (run_ok []) (run_ok [faq, shipping_note])) = [faq, shipping_note]"
    by (simp add: retrieved_def env_of_def run_ok_def searchKnowledgeBase_def)
  have h: "reply (chat Map.empty (env_of (run_ok []) (run_ok [faq, shipping_note])) (ask ''i paid twice'' ''s2'')) =
     Response 200 (ChatBody generic_template ''s2'' (Some [source_of faq, source_of shipping_note]))"
    by code_simp
  from source_fields_unchanged [OF h, of 1] h r show ?thesis
    by (simp add: shipping_note_def)
qed

subsection \<open>The price of the blue hoodie\<close>

text \<open>
  C6 (as amended). The message is the question about the blue hoodie in size M and both
  searches of the turn succeed. Among the first three retrieved documents there is a
  document \<open>d\<close> with a non-empty URL; every document ranked before it either has no URL, or
  has another URL and neither a blue variant of size m nor a text containing both ``blue''
  and ``m''; and the first variant of \<open>d\<close> whose lower-cased colour is ``blue'' and size is
  ``m'' has the price ``$40'', is available and has no compare-at price. Then the reply is
  the answer built from \<open>d\<close>: it contains the line ``Price: $40 (in stock)'' and ends with
  the line ``More details: '' followed by the URL of \<open>d\<close>.
\<close>

theorem hoodie_price_reply:
  assumes "message req = Some hoodie_question" and "sessionId req = Some sid" and "sid \<noteq> []"
      and "searchKnowledgeBase (first_search env) = Inr r1"
      and "searchKnowledgeBase (second_search env) = Inr (Docs (pre @ d # post))"
      and "length pre < 3"
      and "\<forall>p \<in> set pre. \<not> truthy (url p) \<or>
             (url p \<noteq> url d \<and> \<not> qualifies (Some ''blue'') (Some ''m'') p)"
      and "truthy (url d)"
      and "find (variant_matches (Some ''blue'') (Some ''m'')) (variants (product_info_of d)) = Some v"
      and "price v = Some ''$40''" and "available v = Some True"
      and "trim (or_empty (compare_at_price v)) = []"
  shows "let txt = join newline (product_lines hoodie_lower (Some ''blue'') (Some ''m'') d) in
         reply (chat st env req) =
           Response 200 (ChatBody txt sid (Some (map source_of (take 3 (pre @ d # post))))) \<and>
         str_includes txt (newline @ ''Price: $40 (in stock)'' @ newline) \<and>
         suffix (newline @ ''More details: '' @ or_empty (url d)) txt"
proof -
  let ?txt = "join newline (product_lines hoodie_lower (Some ''blue'') (Some ''m'') d)"
  let ?ttl = "if truthy (title d) then or_empty (title d) else ''Product''"
  let ?opts = "options_lines True (variants (product_info_of d)) (snippet_of d)"
  let ?more = "''More details: '' @ or_empty (url d)"
  have r: "retrieved env = pre @ d # post"
    using assms(5) by (simp add: retrieved_def)
  have q: "hoodie_question \<noteq> []"
    by (simp add: hoodie_question_def)
  obtain rest where rest: "take 3 (pre @ d # post) = pre @ d # rest"
    using take_three_split [OF assms(6)] by blast
  have "generateResponse hoodie_question (Docs (pre @ d # post)) undefined =
          formatProductAnswer hoodie_question (pre @ d # rest)"
    by (simp add: generateResponse_def hoodie_classified rest del: take_append)
  also have "\<dots> = ?txt"
    by (rule hoodie_answer [OF assms(7,8,9)])
  finally have "reply (chat st env req) =
      Response 200 (ChatBody ?txt sid (Some (map source_of (take 3 (pre @ d # post)))))"
    using chat_search_ok [OF assms(1) q assms(2,3) disjI2 [OF assms(4)] assms(5), of st undefined]
    by (simp add: r)
  moreover have ls: "product_lines hoodie_lower (Some ''blue'') (Some ''m'') d =
                   [?ttl, ''Price: $40 (in stock)''] @ ?opts @ [?more]"
    by (rule hoodie_product_lines [OF assms(9,10,11,12)])
  have "?txt = ?ttl @ (newline @ ''Price: $40 (in stock)'' @ newline) @ join newline (?opts @ [?more])"
    unfolding ls using join_second_line [of "?opts @ [?more]" newline ?ttl "''Price: $40 (in stock)''"]
    by simp
  then have "str_includes ?txt (newline @ ''Price: $40 (in stock)'' @ newline)"
    using str_includes_middle
      [of ?ttl "newline @ ''Price: $40 (in stock)'' @ newline" "join newline (?opts @ [?more])"]
    by simp
  moreover have "?txt = join newline ([?ttl, ''Price: $40 (in stock)''] @ ?opts) @ newline @ ?more"
    unfolding ls using join_snoc [of "[?ttl, ''Price: $40 (in stock)''] @ ?opts" newline ?more]
    by simp
  then have "suffix (newline @ ?more) ?txt"
    by (simp add: suffix_def)
  ultimately show ?thesis
    by (simp add: Let_def)
qed

text \<open>
  A document without a blue item is ranked first, the hoodie second; the reply is built from
  the hoodie.
\<close>

theorem hoodie_price_reply_witness:
  "reply (chat Map.empty
            (env_of (run_ok [])
               (run_ok [shipping_note, hoodie (Some ''https://shop/hoodie'') [blue_m ''$40''], faq]))
            (ask hoodie_question ''s1'')) =
     Response 200
       (ChatBody
          ''Hoodie\<newline>Price: $40 (in stock)\<newline>Colors: Blue\<newline>Sizes: M\<newline>More details: https://shop/hoodie''
          ''s1''
          (Some [source_of shipping_note,
                 source_of (hoodie (Some ''https://shop/hoodie'') [blue_m ''$40'']),
                 source_of faq])) \<and>
   str_includes
     ''Hoodie\<newline>Price: $40 (in stock)\<newline>Colors: Blue\<newline>Sizes: M\<newline>More details: https://shop/hoodie''
     (newline @ ''Price: $40 (in stock)'' @ newline) \<and>
   suffix (newline @ ''More details: https://shop/hoodie'')
     ''Hoodie\<newline>Price: $40 (in stock)\<newline>Colors: Blue\<newline>Sizes: M\<newline>More details: https://shop/hoodie''"
proof -
  let ?d = "hoodie (Some ''https://shop/hoodie'') [blue_m ''$40'']"
  let ?env = "env_of (run_ok []) (run_ok [shipping_note, ?d, faq])"
  have h1: "message (ask hoodie_question ''s1'') = Some hoodie_question"
    and h2: "sessionId (ask hoodie_question ''s1'') = Some ''s1''"
    by (simp_all add: ask_def)
  have h3: "searchKnowledgeBase (first_search ?env) = Inr (Docs [])"
    and h4: "searchKnowledgeBase (second_search ?env) = Inr (Docs ([shipping_note] @ ?d # [faq]))"
    by (simp_all add: env_of_def run_ok_def searchKnowledgeBase_def)
  have h5: "\<forall>p \<in> set [shipping_note]. \<not> truthy (url p) \<or>
             (url p \<noteq> url ?d \<and> \<not> qualifies (Some ''blue'') (Some ''m'') p)"
    by code_simp
  have h6: "truthy (url ?d)"
    by code_simp
  have h7: "find (variant_matches (Some ''blue'') (Some ''m'')) (variants (product_info_of ?d)) =
              Some (blue_m ''$40'')"
    by code_simp
  have h8: "price (blue_m ''$40'') = Some ''$40''" "available (blue_m ''$40'') = Some True"
    "trim (or_empty (compare_at_price (blue_m ''$40''))) = []"
    by code_simp+
  have t: "join newline (product_lines hoodie_lower (Some ''blue'') (Some ''m'') ?d) =
             ''Hoodie\<newline>Price: $40 (in stock)\<newline>Colors: Blue\<newline>Sizes: M\<newline>More details: https://shop/hoodie''"
    by code_simp
  have u: "or_empty (url ?d) = ''https://shop/hoodie''"
    by code_simp
  from hoodie_price_reply [OF h1 h2 _ h3 h4 _ h5 h6 h7 h8, of Map.empty]
  show ?thesis
    unfolding Let_def t u by simp
qed

text \<open>
  The statement fails for a product document that is merely among the retrieved ones. First
  input: a page whose text has ``blue'' and the letter ``m'' is ranked above the hoodie, and
  the reply is built from that page. Second input: the hoodie has two blue variants of size
  M and the first costs ``$55''. Neither reply contains ``Price: $40 (in stock)''.
\<close>

theorem hoodie_price_reply_counterexample:
  "response_text
     (reply (chat Map.empty
               (env_of (run_ok [])
                  (run_ok [faq, hoodie (Some ''https://shop/hoodie'') [blue_m ''$40'']]))
               (ask hoodie_question ''s1''))) =
     ''FAQ'' @ newline @ ''Our blue items come in many sizes.'' @ ellipsis @ newline @
     ''More details: https://shop/faq'' \<and>
   \<not> str_includes
       (''FAQ'' @ newline @ ''Our blue items come in many sizes.'' @ ellipsis @ newline @
        ''More details: https://shop/faq'')
       ''Price: $40 (in stock)'' \<and>
   response_text
     (reply (chat Map.empty
               (env_of (run_ok [])
                  (run_ok [hoodie (Some ''https://shop/hoodie'') [blue_m ''$55'', blue_m ''$40'']]))
               (ask hoodie_question ''s1''))) =
     ''Hoodie\<newline>Price: $55 (in stock)\<newline>Colors: Blue\<newline>Sizes: M\<newline>More details: https://shop/hoodie'' \<and>
   \<not> str_includes
       ''Hoodie\<newline>Price: $55 (in stock)\<newline>Colors: Blue\<newline>Sizes: M\<newline>More details: https://shop/hoodie''
       ''Price: $40 (in stock)''"
proof -
  have a: "response_text
     (reply (chat Map.empty
               (env_of (run_ok [])
                  (run_ok [faq, hoodie (Some ''https://shop/hoodie'') [blue_m ''$40'']]))
               (ask hoodie_question ''s1''))) =
     ''FAQ'' @ newline @ ''Our blue items come in many sizes.'' @ ellipsis @ newline @
     ''More details: https://shop/faq''"
    by code_simp
  have b: "\<not> str_includes
       (''FAQ'' @ newline @ ''Our blue items come in many sizes.'' @ ellipsis @ newline @
        ''More details: https://shop/faq'')
       ''Price: $40 (in stock)''"
    by code_simp
  have c: "response_text
     (reply (chat Map.empty
               (env_of (run_ok [])
                  (run_ok [hoodie (Some ''https://shop/hoodie'') [blue_m ''$55'', blue_m ''$40'']]))
               (ask hoodie_question ''s1''))) =
     ''Hoodie\<newline>Price: $55 (in stock)\<newline>Colors: Blue\<newline>Sizes: M\<newline>More details: https://shop/hoodie''"
    by code_simp
  have d: "\<not> str_includes
       ''Hoodie\<newline>Price: $55 (in stock)\<newline>Colors: Blue\<newline>Sizes: M\<newline>More details: https://shop/hoodie''
       ''Price: $40 (in stock)''"
    by code_simp
  from a b c d show ?thesis by blast
qed

subsection \<open>Filtering by attributes\<close>

text \<open>
  C7. \<^verbatim>\<open>filterByAttributes\<close> returns its input when neither a colour nor a size is requested;
  otherwise the documents that qualify (a variant with the requested colour and size, or a
  text with the requested tokens), in their order, and the whole input when none
  qualifies. The result is a subsequence of the input and is empty only if the input is.
\<close>

theorem filterByAttributes_correct:
  "filterByAttributes hits col sz =
     (if \<not> truthy col \<and> \<not> truthy sz then hits
      else if filter (qualifies col sz) hits = [] then hits
      else filter (qualifies col sz) hits) \<and>
   subseq (filterByAttributes hits col sz) hits \<and>
   (hits \<noteq> [] \<longrightarrow> filterByAttributes hits col sz \<noteq> [])"
proof -
  have eq: "filterByAttributes hits col sz =
     (if \<not> truthy col \<and> \<not> truthy sz then hits
      else if filter (qualifies col sz) hits = [] then hits
      else filter (qualifies col sz) hits)"
    by (simp add: filterByAttributes_def filter_loop_filter picks_qualifies Let_def)
  have sub: "subseq (filterByAttributes hits col sz) hits"
    unfolding eq by simp
  have ne: "hits \<noteq> [] \<longrightarrow> filterByAttributes hits col sz \<noteq> []"
    unfolding eq by simp
  from eq sub ne show ?thesis by blast
qed

text \<open>
  Blue in size m keeps the hoodie alone; green, which no document has, keeps all three.
\<close>

theorem filterByAttributes_correct_witness:
  "filterByAttributes [shipping_note, hoodie None [blue_m ''$40''], about_us]
     (Some ''blue'') (Some ''m'') = [hoodie None [blue_m ''$40'']] \<and>
   filter (qualifies (Some ''blue'') (Some ''m''))
     [shipping_note, hoodie None [blue_m ''$40''], about_us] = [hoodie None [blue_m ''$40'']] \<and>
   filter (qualifies (Some ''green'') None)
     [shipping_note, hoodie None [blue_m ''$40''], about_us] = [] \<and>
   filterByAttributes [shipping_note, hoodie None [blue_m ''$40''], about_us]
     (Some ''green'') None = [shipping_note, hoodie None [blue_m ''$40''], about_us]"
proof -
  let ?hits = "[shipping_note, hoodie None [blue_m ''$40''], about_us]"
  have f: "filter (qualifies (Some ''blue'') (Some ''m'')) ?hits = [hoodie None [blue_m ''$40'']]"
    and g: "filter (qualifies (Some ''green'') None) ?hits = []"
    by code_simp+
  from filterByAttributes_correct [of ?hits "Some ''blue''" "Some ''m''"]
    filterByAttributes_correct [of ?hits "Some ''green''" None] f g
  show ?thesis
    by (simp add: truthy_def)
qed

subsection \<open>A fixed reply for the refund status\<close>

text \<open>
  C8 (as amended). For the message ``my refund status'', when the search of the turn
  succeeds, the reply is the refund template, whatever the search printed and whatever the
  store holds for the session. (The message has the keyword ``status'', so the search of
  line 150 is not run.)
\<close>

theorem refund_status_reply:
  assumes "message req = Some ''my refund status''" and "sessionId req = Some sid"
      and "sid \<noteq> []"
      and "searchKnowledgeBase (second_search env) = Inr results"
  shows "reply (chat st env req) =
           Response 200 (ChatBody refund_template sid
                           (Some (map source_of (take 3 (retrieved env)))))"
proof -
  have t: "isOrderTrackingQuery ''my refund status''"
    and p: "isPersonalizedQuery ''my refund status''"
    and h: "handlePersonalizedQuery ''my refund status'' = refund_template"
    by code_simp+
  have "generateResponse ''my refund status'' (Docs (retrieved env)) undefined = refund_template"
    by (simp add: generateResponse_def p h)
  with chat_search_ok [OF assms(1) _ assms(2,3) disjI1 [OF t] assms(4), of st undefined]
  show ?thesis
    by simp
qed

text \<open>
  The session of the witness has an order ID, set by a call of the order-tracking endpoint,
  and the search printed a product document.
\<close>

theorem refund_status_reply_witness:
  "map_option (\<lambda>s. orderId (sess_context s))
     (snd (track_order Map.empty 900 2
             \<lparr>tr_orderId = Some ''A17'', tr_sessionId = Some ''s1'', tr_customerInfo = None\<rparr>)
        ''s1'') = Some (Some ''A17'') \<and>
   reply (chat
            (snd (track_order Map.empty 900 2
                    \<lparr>tr_orderId = Some ''A17'', tr_sessionId = Some ''s1'',
                     tr_customerInfo = None\<rparr>))
            (env_of run_failed (run_ok [hoodie (Some ''https://shop/hoodie'') [blue_m ''$40'']]))
            (ask ''my refund status'' ''s1'')) =
     Response 200
       (ChatBody refund_template ''s1''
          (Some [source_of (hoodie (Some ''https://shop/hoodie'') [blue_m ''$40''])]))"
proof -
  let ?env = "env_of run_failed (run_ok [hoodie (Some ''https://shop/hoodie'') [blue_m ''$40'']])"
  have o: "map_option (\<lambda>s. orderId (sess_context s))
     (snd (track_order Map.empty 900 2
             \<lparr>tr_orderId = Some ''A17'', tr_sessionId = Some ''s1'', tr_customerInfo = None\<rparr>)
        ''s1'') = Some (Some ''A17'')"
    by code_simp
  have s: "searchKnowledgeBase (second_search ?env) =
             Inr (Docs [hoodie (Some ''https://shop/hoodie'') [blue_m ''$40'']])"
    by (simp add: env_of_def run_ok_def searchKnowledgeBase_def)
  from refund_status_reply [of "ask ''my refund status'' ''s1''" "''s1''" ?env _
      "snd (track_order Map.empty 900 2
             \<lparr>tr_orderId = Some ''A17'', tr_sessionId = Some ''s1'', tr_customerInfo = None\<rparr>)"] s o
  show ?thesis
    by (simp add: ask_def retrieved_def)
qed

text \<open>
  Without the hypothesis on the search the statement fails: when the search exits with
  code 1 the reply is the apology of line 161.
\<close>

theorem refund_status_reply_counterexample:
  "reply (chat Map.empty (env_of (run_ok []) run_failed) (ask ''my refund status'' ''s1'')) =
     Response 200 (ChatBody trouble_reply ''s1'' None) \<and>
   trouble_reply \<noteq> refund_template"
  by code_simp

subsection \<open>Documents without a URL\<close>

text \<open>
  C10. \<^verbatim>\<open>formatProductAnswer\<close> drops the documents whose \<^verbatim>\<open>url\<close> is absent or empty before it
  filters and selects: no such document is left after the de-duplication, the answer is
  that for the list without them, and when no document has a URL the answer is the empty
  string.
\<close>

theorem formatProductAnswer_without_urls:
  "(\<forall>h \<in> set (dedupe_loop {} [] hits). truthy (url h)) \<and>
   formatProductAnswer query hits =
     formatProductAnswer query (filter (\<lambda>h. truthy (url h)) hits) \<and>
   ((\<forall>h \<in> set hits. \<not> truthy (url h)) \<longrightarrow> formatProductAnswer query hits = [])"
  by (auto simp: formatProductAnswer_def dedupe_loop_drops dedupe_loop_no_url
      filterByAttributes_Nil Let_def dest: dedupe_loop_has_url)

text \<open>
  A hoodie whose blue variant of size M matches the question, once without a URL and once
  with an empty one.
\<close>

theorem formatProductAnswer_without_urls_witness:
  "\<not> truthy (url (hoodie None [blue_m ''$40''])) \<and>
   \<not> truthy (url (hoodie (Some []) [blue_m ''$40''])) \<and>
   picks (Some ''blue'') (Some ''m'') (hoodie None [blue_m ''$40'']) \<and>
   formatProductAnswer hoodie_question
     [hoodie None [blue_m ''$40''], hoodie (Some []) [blue_m ''$40'']] = []"
proof -
  have u: "\<not> truthy (url (hoodie None [blue_m ''$40'']))"
    "\<not> truthy (url (hoodie (Some []) [blue_m ''$40'']))"
    and p: "picks (Some ''blue'') (Some ''m'') (hoodie None [blue_m ''$40''])"
    by code_simp+
  from formatProductAnswer_without_urls
    [of "[hoodie None [blue_m ''$40''], hoodie (Some []) [blue_m ''$40'']]" hoodie_question]
  have "(\<forall>h \<in> set [hoodie None [blue_m ''$40''], hoodie (Some []) [blue_m ''$40'']].
            \<not> truthy (url h)) \<longrightarrow>
        formatProductAnswer hoodie_question
          [hoodie None [blue_m ''$40''], hoodie (Some []) [blue_m ''$40'']] = []"
    by blast
  with u p show ?thesis
    by simp
qed

subsection \<open>Further properties of the chat handler\<close>

text \<open>
  When the search of line 156 fails, in a turn that got that far, the response is the
  apology with status 200 and no \<^verbatim>\<open>sources\<close>; the store is left as it was for a new session,
  and holds the user message of the turn for a session it already had.
\<close>

theorem search_failure_apology:
  assumes "message req = Some msg" and "msg \<noteq> []" and "sessionId req = Some sid"
      and "sid \<noteq> []"
      and "isOrderTrackingQuery msg \<or> searchKnowledgeBase (first_search env) = Inr r1"
      and "searchKnowledgeBase (second_search env) = Inl e"
  shows "reply (chat st env req) = Response 200 (ChatBody trouble_reply sid None) \<and>
         store_after (chat st env req) =
           (case st sid of
              None \<Rightarrow> st
            | Some s \<Rightarrow> st(sid \<mapsto> push \<lparr>role = User, content = msg, timestamp = now_user env,
                                       searchResults = None\<rparr> s))"
  using assms
  by (auto simp: chat.simps chat_rest_def Let_def truthy_def or_empty_def split: option.splits)

theorem search_failure_apology_witness:
  "reply (chat Map.empty (env_of (run_ok []) run_failed) (ask ''hello'' ''s1'')) =
     Response 200 (ChatBody trouble_reply ''s1'' None) \<and>
   store_after (chat Map.empty (env_of (run_ok []) run_failed) (ask ''hello'' ''s1'')) ''s1'' = None"
proof -
  have a: "searchKnowledgeBase (first_search (env_of (run_ok []) run_failed)) = Inr (Docs [])"
    and b: "searchKnowledgeBase (second_search (env_of (run_ok []) run_failed)) = Inl SearchFailed"
    by (simp_all add: env_of_def run_ok_def run_failed_def searchKnowledgeBase_def)
  from search_failure_apology [of "ask ''hello'' ''s1''" "''hello''" "''s1''"
      "env_of (run_ok []) run_failed" "Docs []" SearchFailed Map.empty] a b
  show ?thesis
    by (simp add: ask_def)
qed

text \<open>
  When the message has no order-tracking keyword and the search of line 150 fails, the
  response is the 500 of the outer \<^verbatim>\<open>catch\<close>, after one call of \<^verbatim>\<open>searchKnowledgeBase\<close>.
\<close>

theorem internal_error_at_line_150:
  assumes "message req = Some msg" and "msg \<noteq> []" and "sessionId req = Some sid"
      and "sid \<noteq> []"
      and "\<not> isOrderTrackingQuery msg"
      and "searchKnowledgeBase (first_search env) = Inl e"
  shows "reply (chat st env req) = internal_error \<and> searches (chat st env req) = 1"
  using assms
  by (auto simp: chat.simps chat_rest_def Let_def truthy_def or_empty_def split: option.splits)

theorem internal_error_at_line_150_witness:
  "\<not> isOrderTrackingQuery ''good morning'' \<and>
   reply (chat Map.empty (env_of run_failed (run_ok [faq])) (ask ''good morning'' ''s1'')) =
     internal_error \<and>
   searches (chat Map.empty (env_of run_failed (run_ok [faq])) (ask ''good morning'' ''s1'')) = 1"
proof -
  have t: "\<not> isOrderTrackingQuery ''good morning''"
    by code_simp
  have a: "searchKnowledgeBase (first_search (env_of run_failed (run_ok [faq]))) = Inl SearchFailed"
    by (simp add: env_of_def run_failed_def searchKnowledgeBase_def)
  from internal_error_at_line_150 [of "ask ''good morning'' ''s1''" "''good morning''" "''s1''"
      "env_of run_failed (run_ok [faq])" SearchFailed Map.empty] t a
  show ?thesis
    by (simp add: ask_def)
qed

text \<open>
  In a conversation on one session in which every turn returns normally, each turn
  appends a user message and an assistant message and changes no earlier entry: after \<open>n\<close>
  turns the history is the one before, followed by \<open>n\<close> pairs.
\<close>

theorem history_grows_by_pairs:
  assumes "normal_turns st sid turns"
  shows "map role (history (run_turns st turns) sid) =
           map role (history st sid) @ concat (replicate (length turns) [User, Assistant]) \<and>
         length (history (run_turns st turns) sid) = length (history st sid) + 2 * length turns \<and>
         prefix (history st sid) (history (run_turns st turns) sid)"
  using assms
proof (induction turns arbitrary: st)
  case Nil
  then show ?case by simp
next
  case (Cons t turns)
  obtain env req where t: "t = (env, req)"
    by (cases t)
  from Cons.prems t have sid: "sessionId req = Some sid"
    and n: "normal_return (reply (chat st env req))"
    and rest: "normal_turns (store_after (chat st env req)) sid turns"
    by simp_all
  note h = normal_turn_history [OF sid n]
  from Cons.IH [OF rest] show ?case
    unfolding t by (auto simp: h prefix_def)
qed

theorem history_grows_by_pairs_witness:
  "normal_turns Map.empty ''s1''
     [(env_of (run_ok []) (run_ok [faq]), ask ''hello'' ''s1''),
      (env_of run_failed (run_ok []), ask ''track it'' ''s1'')] \<and>
   map role
     (history
        (run_turns Map.empty
           [(env_of (run_ok []) (run_ok [faq]), ask ''hello'' ''s1''),
            (env_of run_failed (run_ok []), ask ''track it'' ''s1'')]) ''s1'') =
     [User, Assistant, User, Assistant]"
proof -
  have n: "normal_turns Map.empty ''s1''
     [(env_of (run_ok []) (run_ok [faq]), ask ''hello'' ''s1''),
      (env_of run_failed (run_ok []), ask ''track it'' ''s1'')]"
    by code_simp
  from history_grows_by_pairs [OF n] n show ?thesis
    by (simp add: history_def)
qed

end
